theory Spec2Isabelle
  imports Complex_Main "HOL-Library.Sublist"
begin

section \<open>Python strings\<close>

text \<open>
  A Python \<open>str\<close> is a sequence of code points. The model is a \<open>char list\<close> in which
  every \<open>char\<close> is one code point of the Latin-1 range (0 to 255), which holds every
  character of the keyword tables of \<open>utils.py\<close> and \<open>main_cli.py\<close>. The library
  functions \<open>str.lower\<close>, \<open>str.isspace\<close>, \<open>str.strip\<close>, the operator \<open>in\<close> and the
  classes \<open>\s\<close>, \<open>\w\<close> of \<open>re\<close> are written out for that range.
\<close>

definition isspace :: "char \<Rightarrow> bool" where
  "isspace c =
     (let n = (of_char c :: nat)
      in (9 \<le> n \<and> n \<le> 13) \<or> (28 \<le> n \<and> n \<le> 32) \<or> n = 133 \<or> n = 160)"

definition isupper :: "char \<Rightarrow> bool" where
  "isupper c =
     (let n = (of_char c :: nat)
      in (65 \<le> n \<and> n \<le> 90) \<or> (192 \<le> n \<and> n \<le> 214) \<or> (216 \<le> n \<and> n \<le> 222))"

definition lower_char :: "char \<Rightarrow> char" where
  "lower_char c = (if isupper c then char_of ((of_char c :: nat) + 32) else c)"

definition lower :: "string \<Rightarrow> string" where
  "lower s = map lower_char s"

definition lstrip :: "string \<Rightarrow> string" where
  "lstrip s = dropWhile isspace s"

definition rstrip :: "string \<Rightarrow> string" where
  "rstrip s = rev (dropWhile isspace (rev s))"

definition strip :: "string \<Rightarrow> string" where
  "strip s = rstrip (lstrip s)"

text \<open>\<open>w in s\<close> on strings: \<open>w\<close> occurs in \<open>s\<close> as a contiguous substring.\<close>

fun contains :: "string \<Rightarrow> string \<Rightarrow> bool" where
  "contains s [] = (s = [])"
| "contains s (c # cs) = (prefix s (c # cs) \<or> contains s cs)"

text \<open>\<open>any(word in s for word in words)\<close>\<close>

definition any_in :: "string list \<Rightarrow> string \<Rightarrow> bool" where
  "any_in words s = list_ex (\<lambda>word. contains word s) words"

section \<open>utils.py: CacheManager and generate\_cache\_key\<close>

text \<open>
  \<open>re.sub(r'\s+', ' ', s)\<close>: every maximal run of whitespace becomes one space.
\<close>

function sub_spaces :: "string \<Rightarrow> string" where
  "sub_spaces [] = []"
| "sub_spaces (c # cs) =
     (if isspace c then CHR '' '' # sub_spaces (dropWhile isspace cs)
      else c # sub_spaces cs)"
  by pat_completeness auto
termination
  by (relation "measure length") (auto simp: length_dropWhile_le less_Suc_eq_le)

definition normalized_query :: "string \<Rightarrow> string" where
  "normalized_query query = sub_spaces (strip (lower query))"

text \<open>
  \<open>hashlib.md5(s.encode()).hexdigest()\<close> belongs to the Python library; it is the
  parameter \<open>md5_hexdigest\<close>, any function from strings to strings.
\<close>

definition generate_cache_key :: "(string \<Rightarrow> string) \<Rightarrow> string \<Rightarrow> string \<Rightarrow> string" where
  "generate_cache_key md5_hexdigest agent_type query =
     (let query_hash = take 8 (md5_hexdigest (normalized_query query))
      in agent_type @ '':'' @ query_hash)"

text \<open>
  \<open>datetime.now()\<close> is a number of microseconds; \<open>timedelta(minutes=m)\<close> is
  \<open>m * 60000000\<close> of them. Every call that reads the clock takes the reading as an
  argument. A cache entry is the pair \<open>(data, timestamp)\<close>.
\<close>

definition timedelta_minutes :: "int \<Rightarrow> int" where
  "timedelta_minutes m = m * 60000000"

record 'v CacheManager =
  cache :: "string \<rightharpoonup> ('v \<times> int)"
  ttl_minutes :: int

definition CacheManager_init :: "int \<Rightarrow> 'v CacheManager" where
  "CacheManager_init ttl = \<lparr>cache = Map.empty, ttl_minutes = ttl\<rparr>"

definition cache_get :: "'v CacheManager \<Rightarrow> string \<Rightarrow> int \<Rightarrow> 'v option \<times> 'v CacheManager" where
  "cache_get cm key now =
     (case cache cm key of
        Some (data, timestamp) \<Rightarrow>
          if now - timestamp < timedelta_minutes (ttl_minutes cm) then (Some data, cm)
          else (None, cm\<lparr>cache := (cache cm)(key := None)\<rparr>)
      | None \<Rightarrow> (None, cm))"

definition cache_set :: "'v CacheManager \<Rightarrow> string \<Rightarrow> 'v \<Rightarrow> int \<Rightarrow> 'v CacheManager" where
  "cache_set cm key v now = cm\<lparr>cache := (cache cm)(key \<mapsto> (v, now))\<rparr>"

definition cache_clear :: "'v CacheManager \<Rightarrow> 'v CacheManager" where
  "cache_clear cm = cm\<lparr>cache := Map.empty\<rparr>"

section \<open>utils.py: QueryAnalyzer\<close>

abbreviation (input) a_acute :: char where "a_acute \<equiv> CHR 0xE1"
abbreviation (input) a_circ :: char where "a_circ \<equiv> CHR 0xE2"
abbreviation (input) a_tilde :: char where "a_tilde \<equiv> CHR 0xE3"
abbreviation (input) c_cedil :: char where "c_cedil \<equiv> CHR 0xE7"
abbreviation (input) e_acute :: char where "e_acute \<equiv> CHR 0xE9"
abbreviation (input) e_circ :: char where "e_circ \<equiv> CHR 0xEA"
abbreviation (input) i_acute :: char where "i_acute \<equiv> CHR 0xED"
abbreviation (input) o_acute :: char where "o_acute \<equiv> CHR 0xF3"
abbreviation (input) degree_sign :: char where "degree_sign \<equiv> CHR 0xB0"

record QueryClassification =
  intent :: string
  confidence :: real
  entities :: "string list"
  keywords_found :: "string list"

text \<open>
  The patterns of \<open>INTENT_PATTERNS\<close> all have the shape \<open>\b(a1|...|an)\b\<close>, where an
  alternative is a sequence of literals and of \<open>\s+\<close>. A pattern is the list of its
  alternatives, in the order the regular expression tries them.
\<close>

datatype atom = Lit string | Spaces

type_synonym pattern = "atom list list"

definition words :: "string list \<Rightarrow> pattern" where
  "words ws = map (\<lambda>w. [Lit w]) ws"

definition INTENT_PATTERNS :: "(string \<times> pattern list) list" where
  "INTENT_PATTERNS =
    [(''weather'',
       [words [''clima'', ''tempo'', ''temperatura'', ''chuva'', ''sol'', ''vento''],
        words [''previs'' @ a_tilde # ''o'', ''meteorol'', degree_sign # ''c'', ''celsius'',
               ''fahrenheit''],
        words [''quente'', ''frio'', ''nublado'', ''ensolarado'']]),
     (''chart'',
       [words [''gr'' @ a_acute # ''fico'', ''chart'', ''plotar'', ''visualiz'', ''diagram''],
        words [''hist'' @ o_acute # ''rico'', ''evolu'' @ c_cedil # a_tilde # ''o'',
               ''tend'' @ e_circ # ''ncia'', ''comparar''],
        words [''linha'', ''barras'', ''pizza'', ''scatter'']]),
     (''research'',
       [words [''pib'', ''economia'', ''dados'', ''estat'' @ i_acute # ''stica''],
        words [''munic'' @ i_acute # ''pio'', ''cidade'', ''estado'', ''regi'' @ a_tilde # ''o''],
        [[Lit ''ibge''], [Lit ''banco'', Spaces, Lit ''central''], [Lit ''bcb'']]])]"

definition BRAZILIAN_LOCATIONS :: "string list" where
  "BRAZILIAN_LOCATIONS =
    [''s'' @ a_tilde # ''o paulo'', ''rio de janeiro'', ''bras'' @ i_acute # ''lia'', ''salvador'',
     ''fortaleza'', ''belo horizonte'', ''manaus'', ''curitiba'',
     ''recife'', ''porto alegre'', ''bel'' @ e_acute # ''m'', ''goi'' @ a_circ # ''nia'']"

definition economic_keywords :: "string list" where
  "economic_keywords =
    [''pib'', ''economia'', ''renda'', ''popula'' @ c_cedil # a_tilde # ''o'', ''desenvolvimento'',
     ''crescimento'', ''investimento'', ''emprego'', ''infla'' @ c_cedil # a_tilde # ''o'']"

text \<open>\<open>\w\<close>: what \<open>str.isalnum\<close> accepts, and the underscore.\<close>

definition is_word_char :: "char \<Rightarrow> bool" where
  "is_word_char c =
     (let n = (of_char c :: nat)
      in (48 \<le> n \<and> n \<le> 57) \<or> (65 \<le> n \<and> n \<le> 90) \<or> n = 95 \<or> (97 \<le> n \<and> n \<le> 122)
         \<or> n = 170 \<or> n = 178 \<or> n = 179 \<or> n = 181 \<or> n = 185 \<or> n = 186
         \<or> (188 \<le> n \<and> n \<le> 190) \<or> (192 \<le> n \<and> n \<le> 214) \<or> (216 \<le> n \<and> n \<le> 246)
         \<or> (248 \<le> n \<and> n \<le> 255))"

text \<open>
  \<open>\b\<close> at a position: exactly one of the character before it (\<open>prev\<close>, \<open>None\<close> at the
  start of the string) and the character after it (none at the end) is a word character.
\<close>

definition word_boundary :: "char option \<Rightarrow> string \<Rightarrow> bool" where
  "word_boundary prev s =
     ((case prev of None \<Rightarrow> False | Some c \<Rightarrow> is_word_char c)
      \<noteq> (case s of [] \<Rightarrow> False | c # _ \<Rightarrow> is_word_char c))"

text \<open>
  The ways an alternative matches at the start of \<open>s\<close>, in the order the backtracking
  matcher tries them: each is the last character consumed and the rest of the string.
  \<open>\s+\<close> is greedy, the longest run first.
\<close>

fun match_atoms :: "atom list \<Rightarrow> char option \<Rightarrow> string \<Rightarrow> (char option \<times> string) list" where
  "match_atoms [] prev s = [(prev, s)]"
| "match_atoms (Lit w # as) prev s =
     (if prefix w s
      then match_atoms as (if w = [] then prev else Some (last w)) (drop (length w) s)
      else [])"
| "match_atoms (Spaces # as) prev s =
     concat (map (\<lambda>k. match_atoms as (Some (s ! (k - 1))) (drop k s))
                 (rev [1 ..< Suc (length (takeWhile isspace s))]))"

definition match_at :: "pattern \<Rightarrow> char option \<Rightarrow> string \<Rightarrow> (char option \<times> string) option" where
  "match_at p prev s =
     (if word_boundary prev s
      then find (\<lambda>(prev', rest). word_boundary prev' rest)
                (concat (map (\<lambda>alt. match_atoms alt prev s) p))
      else None)"

text \<open>
  \<open>len(re.findall(pattern, s))\<close>: the matches are found from left to right and do not
  overlap; after a match the search goes on where the match ended. (An empty match, which
  no pattern of \<open>INTENT_PATTERNS\<close> has, counts and moves the search one character on.)
\<close>

function findall_count :: "pattern \<Rightarrow> char option \<Rightarrow> string \<Rightarrow> nat" where
  "findall_count p prev s =
     (case match_at p prev s of
        Some (prev', rest) \<Rightarrow>
          if length rest < length s then Suc (findall_count p prev' rest)
          else (case s of [] \<Rightarrow> 1 | c # cs \<Rightarrow> Suc (findall_count p (Some c) cs))
      | None \<Rightarrow> (case s of [] \<Rightarrow> 0 | c # cs \<Rightarrow> findall_count p (Some c) cs))"
  by pat_completeness auto
termination
  by (relation "measure (\<lambda>(p, prev, s). length s)") auto

declare findall_count.simps [simp del]

definition intent_score :: "pattern list \<Rightarrow> string \<Rightarrow> nat" where
  "intent_score patterns query_lower =
     fold (\<lambda>pattern score. score + findall_count pattern None query_lower) patterns 0"

definition intent_scores :: "string \<Rightarrow> (string \<times> nat) list" where
  "intent_scores query_lower =
     map (\<lambda>(intent, patterns). (intent, intent_score patterns query_lower)) INTENT_PATTERNS"

text \<open>
  An exception, with its text \<open>str(e)\<close>. \<open>TimeoutException\<close> of \<open>main_cli.py\<close> derives
  from \<open>Exception\<close>, and \<open>Exception\<close> stands for every other instance of that class
  (\<open>ValueError\<close>, an error of an agent, ...). \<open>KeyboardInterrupt\<close> and \<open>SystemExit\<close> derive
  from \<open>BaseException\<close> only: a clause \<open>except Exception\<close> does not catch them.
\<close>

datatype exn =
    TimeoutException string
  | Exception string
  | KeyboardInterrupt string
  | SystemExit string

fun str_of :: "exn \<Rightarrow> string" where
  "str_of (TimeoutException m) = m"
| "str_of (Exception m) = m"
| "str_of (KeyboardInterrupt m) = m"
| "str_of (SystemExit m) = m"

text \<open>\<open>isinstance(e, Exception)\<close>\<close>

fun is_Exception :: "exn \<Rightarrow> bool" where
  "is_Exception (TimeoutException m) = True"
| "is_Exception (Exception m) = True"
| "is_Exception (KeyboardInterrupt m) = False"
| "is_Exception (SystemExit m) = False"

text \<open>
  \<open>max(d, key=d.get)\<close> goes through the keys in insertion order and keeps the first key
  whose value is the greatest; on an empty dictionary it raises \<open>ValueError\<close>.
\<close>

fun py_max :: "(string \<times> nat) list \<Rightarrow> exn + (string \<times> nat)" where
  "py_max [] = Inl (Exception ''max() arg is an empty sequence'')"
| "py_max (kv # kvs) =
     Inr (fold (\<lambda>x best. if snd best < snd x then x else best) kvs kv)"

definition islower :: "char \<Rightarrow> bool" where
  "islower c =
     (let n = (of_char c :: nat)
      in (97 \<le> n \<and> n \<le> 122) \<or> n = 170 \<or> n = 181 \<or> n = 186 \<or> (223 \<le> n \<and> n \<le> 246)
         \<or> (248 \<le> n \<and> n \<le> 255))"

text \<open>
  The title-case letter of a character. Three lower-case letters of the range have theirs
  outside it (\<open>0xB5\<close>, \<open>0xDF\<close>, \<open>0xFF\<close>); none of them occurs in \<open>BRAZILIAN_LOCATIONS\<close>, the
  only strings \<open>title\<close> is applied to, and the model leaves them as they are.
\<close>

definition title_char :: "char \<Rightarrow> char" where
  "title_char c =
     (let n = (of_char c :: nat)
      in if (97 \<le> n \<and> n \<le> 122) \<or> (224 \<le> n \<and> n \<le> 246) \<or> (248 \<le> n \<and> n \<le> 254)
         then char_of (n - 32) else c)"

fun title_from :: "bool \<Rightarrow> string \<Rightarrow> string" where
  "title_from previous_is_cased [] = []"
| "title_from previous_is_cased (c # cs) =
     (if previous_is_cased then lower_char c else title_char c)
       # title_from (islower c \<or> isupper c) cs"

definition title :: "string \<Rightarrow> string" where
  "title s = title_from False s"

definition extract_entities :: "string \<Rightarrow> string list" where
  "extract_entities query =
     map title (filter (\<lambda>location. contains location query) BRAZILIAN_LOCATIONS)"

definition extract_keywords :: "string \<Rightarrow> string list" where
  "extract_keywords query = filter (\<lambda>keyword. contains keyword query) economic_keywords"

definition analyze_query :: "string \<Rightarrow> exn + QueryClassification" where
  "analyze_query query =
     (let query_lower = lower query;
          scores = intent_scores query_lower
      in case py_max scores of
           Inl e \<Rightarrow> Inl e
         | Inr (best_intent, max_score) \<Rightarrow>
             let total_score = sum_list (map snd scores)
             in Inr \<lparr>intent = best_intent,
                     confidence = real max_score / real (max total_score 1),
                     entities = extract_entities query_lower,
                     keywords_found = extract_keywords query_lower\<rparr>)"

section \<open>main\_cli.py: BrazilianEconomyAgentSystem\<close>

text \<open>
  \<open>time.time()\<close> is a number of seconds; \<open>AGENT_TIMEOUT\<close> is 30 of them.
\<close>

definition AGENT_TIMEOUT :: real where
  "AGENT_TIMEOUT = 30"

text \<open>The exception that the handler of \<open>SIGALRM\<close> raises.\<close>

definition timeout_handler :: exn where
  "timeout_handler = TimeoutException ''Agent execution timed out''"

text \<open>The three keyword lists of \<open>_route_query\<close>, in the order it tests them.\<close>

definition weather_words :: "string list" where
  "weather_words =
     [''clima'', ''tempo'', ''temperatura'', ''chuva'', ''meteorol'' @ o_acute # ''gico'']"

definition chart_words :: "string list" where
  "chart_words =
     [''gr'' @ a_acute # ''fico'', ''chart'', ''plotar'', ''visualizar'', ''plot'', ''graph'']"

definition research_words :: "string list" where
  "research_words =
     [''pesquisa'', ''economia'', ''pib'', ''dados'', ''ibge'', ''estat'' @ i_acute # ''stica'']"

definition route_query :: "string \<Rightarrow> string" where
  "route_query query =
     (let query_lower = lower query
      in if any_in weather_words query_lower then ''weather''
         else if any_in chart_words query_lower then ''chart''
         else if any_in research_words query_lower then ''research''
         else ''research'')"

text \<open>
  The dictionary that \<open>process_query\<close> returns has one of two shapes: with
  \<open>"success": True\<close> the keys of \<open>Success\<close>, with \<open>"success": False\<close> those of
  \<open>Failure\<close>. The timestamp is the reading of \<open>datetime.now()\<close>.
\<close>

datatype outcome =
    Success (content: string) (agent_used: string) (query_text: string)
            (analysis: QueryClassification) (processing_time: real) (timestamp: int)
  | Failure (error: string) (query_text: string) (processing_time: real) (timestamp: int)

fun success :: "outcome \<Rightarrow> bool" where
  "success (Success c a q an p t) = True"
| "success (Failure e q p t) = False"

text \<open>
  An agent executor is outside the repository. One call \<open>executor.invoke({"input": query})\<close>
  either returns a dictionary, of which the model keeps the entry \<open>"output"\<close> if there is
  one, or raises: an error of the agent, \<open>timeout_handler\<close> when the alarm goes off during
  the call, \<open>KeyboardInterrupt\<close> when the user interrupts it.
\<close>

datatype invoke_result = Returned "string option" | Raised exn

record env =
  md5_hexdigest :: "string \<Rightarrow> string"
  research_executor :: "string \<Rightarrow> invoke_result"
  chart_executor :: "string \<Rightarrow> invoke_result"
  weather_executor :: "string \<Rightarrow> invoke_result"

text \<open>
  The statements of \<open>process_query\<close> outside the agent call are pure in the model. An
  exception that reaches one of them from outside (the alarm of an earlier call, which the
  error path never cancels, an interrupt from the keyboard, the logger, the console) is an
  input: for each part of the function, the exception raised while it runs, if any. The
  parts are the statements before the \<open>try\<close> (lines 220 to 223), the cache check (227
  to 233), the analysis (236 to 246), the routing (249 to 252), the construction of the
  result after the agent call (293 to 316), and the body of the outer \<open>except\<close> (319 to
  331). A part in which an exception is raised has no effect on the state.
\<close>

record faults =
  fault_prologue :: "exn option"
  fault_cache_check :: "exn option"
  fault_analyze :: "exn option"
  fault_route :: "exn option"
  fault_finalize :: "exn option"
  fault_except_body :: "exn option"

definition no_faults :: faults where
  "no_faults = \<lparr>fault_prologue = None, fault_cache_check = None, fault_analyze = None,
                fault_route = None, fault_finalize = None, fault_except_body = None\<rparr>"

text \<open>The readings of the clock during one call of \<open>process_query\<close>, in program order.\<close>

record clock =
  time_start :: real
  now_get :: int
  time_end :: real
  now_stamp :: int
  now_set :: int

text \<open>
  The global state: the module's \<open>cache_manager\<close>, and the calls of \<open>log_agent_activity\<close>
  so far, each as the pair of its agent name and action.
\<close>

record system =
  cache_manager :: "outcome CacheManager"
  activity_log :: "(string \<times> string) list"

definition system_init :: system where
  "system_init = \<lparr>cache_manager = CacheManager_init 30, activity_log = []\<rparr>"

definition log_agent_activity :: "string \<Rightarrow> string \<Rightarrow> system \<Rightarrow> system" where
  "log_agent_activity agent_name action s =
     s\<lparr>activity_log := activity_log s @ [(agent_name, action)]\<rparr>"

definition timeout_output :: "string \<Rightarrow> string" where
  "timeout_output query =
     ''Consulta sobre '' @ CHR 0x27 # query @ CHR 0x27
       # '' teve timeout. Tente uma pergunta mais espec'' @ i_acute # ''fica ou simples.''"

definition error_output :: "string \<Rightarrow> string \<Rightarrow> string" where
  "error_output query str_e =
     ''N'' @ a_tilde # ''o foi poss'' @ i_acute # ''vel processar completamente a consulta ''
       @ CHR 0x27 # query @ CHR 0x27 # ''. Erro: '' @ take 100 str_e @ ''...''"

definition default_content :: string where
  "default_content = ''Resposta n'' @ a_tilde # ''o dispon'' @ i_acute # ''vel''"

text \<open>
  The inner \<open>try\<close>: the executor of the route is called, the research executor for any
  other route. \<open>except TimeoutException\<close> and then \<open>except Exception\<close> turn the exception
  into a result dictionary; an exception that neither clause catches leaves the inner
  \<open>try\<close> (\<open>Inl\<close>).
\<close>

definition select_executor :: "env \<Rightarrow> string \<Rightarrow> string \<times> string \<times> (string \<Rightarrow> invoke_result)" where
  "select_executor env route =
     (if route = ''research'' then (''research_agent'', ''processing_query'', research_executor env)
      else if route = ''chart''
        then (''chart_agent'', ''generating_visualization'', chart_executor env)
      else if route = ''weather''
        then (''weather_agent'', ''fetching_climate_data'', weather_executor env)
      else (''research_agent'', ''processing_query'', research_executor env))"

fun handle_raised :: "string \<Rightarrow> exn \<Rightarrow> exn + string option" where
  "handle_raised query (TimeoutException m) = Inr (Some (timeout_output query))"
| "handle_raised query e =
     (if is_Exception e then Inr (Some (error_output query (str_of e))) else Inl e)"

definition execute :: "env \<Rightarrow> string \<Rightarrow> string \<Rightarrow> system \<Rightarrow> (exn + string option) \<times> system" where
  "execute env route query s =
     (case select_executor env route of
        (agent_name, action, executor) \<Rightarrow>
          let s' = log_agent_activity agent_name action s
          in case executor query of
               Returned result \<Rightarrow> (Inr result, s')
             | Raised e \<Rightarrow> (handle_raised query e, s'))"

text \<open>
  The construction of the result and the write to the cache, lines 293 to 316.
\<close>

definition finalize :: "clock \<Rightarrow> string \<Rightarrow> string \<Rightarrow> string \<Rightarrow> QueryClassification \<Rightarrow> string option \<Rightarrow> system \<Rightarrow> outcome \<times> system" where
  "finalize clk cache_key q route an result s =
     (let elapsed = time_end clk - time_start clk;
          final_result =
            Success (case result of Some out \<Rightarrow> out | None \<Rightarrow> default_content)
                    route q an elapsed (now_stamp clk)
      in (final_result,
          if elapsed < AGENT_TIMEOUT
          then s\<lparr>cache_manager :=
                   cache_set (cache_manager s) cache_key final_result (now_set clk)\<rparr>
          else s))"

text \<open>
  The body of the outer \<open>try\<close>: \<open>Inl e\<close> when the exception \<open>e\<close> leaves it, \<open>Inr r\<close> when
  it returns \<open>r\<close>.
\<close>

definition try_block :: "env \<Rightarrow> faults \<Rightarrow> clock \<Rightarrow> string \<Rightarrow> system \<Rightarrow> (exn + outcome) \<times> system" where
  "try_block env f clk q s =
     (case fault_cache_check f of
        Some e \<Rightarrow> (Inl e, s)
      | None \<Rightarrow>
          let cache_key = generate_cache_key (md5_hexdigest env) ''system'' q;
              (cached_result, cm) = cache_get (cache_manager s) cache_key (now_get clk);
              s1 = s\<lparr>cache_manager := cm\<rparr>
          in case cached_result of
               Some r \<Rightarrow> (Inr r, log_agent_activity ''system'' ''cache_hit'' s1)
             | None \<Rightarrow>
                 (case (case fault_analyze f of Some e \<Rightarrow> Inl e | None \<Rightarrow> analyze_query q) of
                    Inl e \<Rightarrow> (Inl e, s1)
                  | Inr an \<Rightarrow>
                      let s2 = log_agent_activity ''system'' ''query_analyzed'' s1
                      in case fault_route f of
                           Some e \<Rightarrow> (Inl e, s2)
                         | None \<Rightarrow>
                             let route = route_query q
                             in case execute env route q s2 of
                                  (Inl e, s3) \<Rightarrow> (Inl e, s3)
                                | (Inr result, s3) \<Rightarrow>
                                    (case fault_finalize f of
                                       Some e \<Rightarrow> (Inl e, s3)
                                     | None \<Rightarrow>
                                         (case finalize clk cache_key q route an result s3 of
                                            (final_result, s4) \<Rightarrow> (Inr final_result, s4)))))"

text \<open>
  The whole call: \<open>Inr r\<close> when it returns the dictionary \<open>r\<close>, \<open>Inl e\<close> when the exception
  \<open>e\<close> leaves it and reaches the caller. The outer clause is \<open>except Exception\<close>: it
  catches the instances of \<open>Exception\<close> that leave the \<open>try\<close> and returns the failure
  dictionary, unless its own body raises; any other exception passes through it.
\<close>

definition process_query :: "env \<Rightarrow> faults \<Rightarrow> clock \<Rightarrow> string \<Rightarrow> system \<Rightarrow> (exn + outcome) \<times> system" where
  "process_query env f clk q s =
     (case fault_prologue f of
        Some e \<Rightarrow> (Inl e, s)
      | None \<Rightarrow>
          (case try_block env f clk q s of
             (Inr r, s') \<Rightarrow> (Inr r, s')
           | (Inl e, s') \<Rightarrow>
               if is_Exception e
               then (case fault_except_body f of
                       Some e' \<Rightarrow> (Inl e', s')
                     | None \<Rightarrow>
                         (Inr (Failure (str_of e) q (time_end clk - time_start clk)
                                 (now_stamp clk)),
                          log_agent_activity ''system'' ''error'' s'))
               else (Inl e, s')))"

section \<open>Example inputs\<close>

text \<open>
  Inputs for the closed statements below. \<open>example_env\<close> has executors that answer at once
  and takes the identity in the place of the MD5 digest; in \<open>failing_env\<close> the research
  executor raises \<open>Exception("boom")\<close>. \<open>example_clock\<close> is a call that starts at second 0
  and ends at second 1; \<open>later_clock\<close> is a call one minute later.
\<close>

definition example_env :: env where
  "example_env =
     \<lparr>md5_hexdigest = (\<lambda>s. s),
      research_executor = (\<lambda>q. Returned (Some ''research answer'')),
      chart_executor = (\<lambda>q. Returned (Some ''chart answer'')),
      weather_executor = (\<lambda>q. Returned (Some ''weather answer''))\<rparr>"

definition failing_env :: env where
  "failing_env = example_env\<lparr>research_executor := (\<lambda>q. Raised (Exception ''boom''))\<rparr>"

definition example_clock :: clock where
  "example_clock =
     \<lparr>time_start = 0, now_get = 0, time_end = 1, now_stamp = 1000000, now_set = 1000000\<rparr>"

definition later_clock :: clock where
  "later_clock =
     \<lparr>time_start = 60, now_get = 60000000, time_end = 61, now_stamp = 61000000,
      now_set = 61000000\<rparr>"

section \<open>Queries that differ only in case and whitespace\<close>

text \<open>
  The words of a string, as \<open>str.split()\<close> gives them: the maximal runs of characters
  that are not whitespace. Two queries differ only in letter casing or in runs of
  whitespace when their lower-cased forms have the same words in the same order; a run of
  whitespace may be there or not at the two ends, and inside it separates two words.
\<close>

function split_ws :: "string \<Rightarrow> string list" where
  "split_ws s =
     (case dropWhile isspace s of
        [] \<Rightarrow> []
      | c # cs \<Rightarrow>
          (c # takeWhile (\<lambda>x. \<not> isspace x) cs) # split_ws (dropWhile (\<lambda>x. \<not> isspace x) cs))"
  by pat_completeness auto
termination
proof (relation "measure length", goal_cases)
  case 1
  show ?case by simp
next
  case (2 s c cs)
  have "length (dropWhile (\<lambda>x. \<not> isspace x) cs) \<le> length cs"
    by (rule length_dropWhile_le)
  moreover have "length (dropWhile isspace s) \<le> length s"
    by (rule length_dropWhile_le)
  ultimately show ?case
    using 2 by simp
qed

declare split_ws.simps [simp del]

definition same_words :: "string \<Rightarrow> string \<Rightarrow> bool" where
  "same_words q1 q2 \<longleftrightarrow> split_ws (lower q1) = split_ws (lower q2)"

fun join_space :: "string list \<Rightarrow> string" where
  "join_space [] = []"
| "join_space [w] = w"
| "join_space (w # v # ws) = w @ CHR '' '' # join_space (v # ws)"

section \<open>Properties\<close>

subsection \<open>Strings\<close>

lemma contains_iff_sublist: "contains w s \<longleftrightarrow> sublist w s"
  by (induction s) (simp_all add: sublist_Cons_right)

lemma any_in_iff: "any_in ws s \<longleftrightarrow> (\<exists>w\<in>set ws. sublist w s)"
  by (simp add: any_in_def list_ex_iff contains_iff_sublist)

subsection \<open>The cache\<close>

text \<open>
  C6. An entry \<open>(v, t0)\<close> that the cache holds under a key is returned by \<open>get\<close> at every
  time strictly before \<open>t0 + ttl\<close>, and the cache is left as it is; at \<open>t0 + ttl\<close> or later
  \<open>get\<close> returns nothing and the cache it leaves no longer has the key. A \<open>set\<close> never
  removes the entry: under the same key it replaces it, under another key it leaves it.
\<close>

theorem cache_get_expiry:
  assumes "cache cm key = Some (v, t0)"
  shows "(now < t0 + timedelta_minutes (ttl_minutes cm) \<longrightarrow>
            cache_get cm key now = (Some v, cm))
       \<and> (t0 + timedelta_minutes (ttl_minutes cm) \<le> now \<longrightarrow>
            cache_get cm key now = (None, cm\<lparr>cache := (cache cm)(key := None)\<rparr>)
            \<and> cache (snd (cache_get cm key now)) key = None)
       \<and> cache (cache_set cm key' v' t1) key
            = (if key' = key then Some (v', t1) else Some (v, t0))"
  using assms by (auto simp: cache_get_def cache_set_def)

theorem cache_get_expiry_witness:
  "cache_get (cache_set (CacheManager_init 30) ''k'' (7::nat) 0) ''k'' 1799999999
     = (Some 7, cache_set (CacheManager_init 30) ''k'' 7 0)
   \<and> fst (cache_get (cache_set (CacheManager_init 30) ''k'' (7::nat) 0) ''k'' 1800000000) = None
   \<and> cache (snd (cache_get (cache_set (CacheManager_init 30) ''k'' (7::nat) 0) ''k'' 1800000000))
        ''k'' = None"
  using cache_get_expiry [of "cache_set (CacheManager_init 30) ''k'' (7::nat) 0" "''k''" 7 0 1799999999]
        cache_get_expiry [of "cache_set (CacheManager_init 30) ''k'' (7::nat) 0" "''k''" 7 0 1800000000]
  by (simp add: cache_set_def CacheManager_init_def timedelta_minutes_def)

subsection \<open>Routing\<close>

text \<open>
  C10. \<open>_route_query\<close> returns for every string one of \<open>weather\<close>, \<open>chart\<close>, \<open>research\<close>.
  It is \<open>weather\<close> when a weather word is a substring of the lower-cased query; \<open>chart\<close>
  when no weather word is and a chart word is; \<open>research\<close> when neither a weather word
  nor a chart word is, whether a research word occurs or not.
\<close>

theorem route_query_precedence:
  "route_query q \<in> {''weather'', ''chart'', ''research''}
   \<and> ((\<exists>w\<in>set weather_words. sublist w (lower q)) \<longrightarrow> route_query q = ''weather'')
   \<and> (\<not> (\<exists>w\<in>set weather_words. sublist w (lower q))
        \<and> (\<exists>w\<in>set chart_words. sublist w (lower q))
        \<longrightarrow> route_query q = ''chart'')
   \<and> (\<not> (\<exists>w\<in>set weather_words. sublist w (lower q))
        \<and> \<not> (\<exists>w\<in>set chart_words. sublist w (lower q))
        \<longrightarrow> route_query q = ''research'')"
  by (simp add: route_query_def Let_def any_in_iff)

lemma weather_word_in_mixed: "any_in weather_words (lower ''Plot do PIB e do clima'')"
  by code_simp

lemma no_weather_word_in_plot: "\<not> any_in weather_words (lower ''Plot do PIB'')"
  by code_simp

lemma chart_word_in_plot: "any_in chart_words (lower ''Plot do PIB'')"
  by code_simp

lemma no_weather_word_in_xyz: "\<not> any_in weather_words (lower ''xyz abc'')"
  by code_simp

lemma no_chart_word_in_xyz: "\<not> any_in chart_words (lower ''xyz abc'')"
  by code_simp

theorem route_query_precedence_witness:
  "route_query ''Plot do PIB e do clima'' = ''weather''
   \<and> route_query ''Plot do PIB'' = ''chart''
   \<and> route_query ''xyz abc'' = ''research''"
  using route_query_precedence [of "''Plot do PIB e do clima''"]
        route_query_precedence [of "''Plot do PIB''"]
        route_query_precedence [of "''xyz abc''"]
        weather_word_in_mixed no_weather_word_in_plot chart_word_in_plot
        no_weather_word_in_xyz no_chart_word_in_xyz
  unfolding any_in_iff by blast

subsection \<open>Classification\<close>

lemma intent_scores_shape:
  "\<exists>sw sc sr. intent_scores x = [(''weather'', sw), (''chart'', sc), (''research'', sr)]"
  by (simp add: intent_scores_def INTENT_PATTERNS_def)

lemma analyze_query_returns: "\<exists>an. analyze_query q = Inr an"
proof -
  obtain sw sc sr
    where "intent_scores (lower q) = [(''weather'', sw), (''chart'', sc), (''research'', sr)]"
    using intent_scores_shape by blast
  then show ?thesis
    by (simp add: analyze_query_def Let_def split: prod.splits)
qed

lemma scores_xyz:
  "intent_scores (lower ''xyz abc'') = [(''weather'', 0), (''chart'', 0), (''research'', 0)]"
  by code_simp

lemma scores_chart_pib:
  "intent_scores (lower (''Gr'' @ a_acute # ''fico do PIB''))
     = [(''weather'', 0), (''chart'', 1), (''research'', 1)]"
  by code_simp

lemma entities_xyz: "extract_entities (lower ''xyz abc'') = []"
  by code_simp

lemma keywords_xyz: "extract_keywords (lower ''xyz abc'') = []"
  by code_simp

text \<open>
  C1, as the code has it. With the scores \<open>sw\<close>, \<open>sc\<close>, \<open>sr\<close> of \<open>weather\<close>, \<open>chart\<close> and
  \<open>research\<close>, \<open>analyze_query\<close> returns the first intent, in the order in which
  \<open>INTENT_PATTERNS\<close> declares them, whose score is the greatest: \<open>weather\<close> when no score is
  above \<open>sw\<close>, else \<open>chart\<close> when \<open>sr\<close> is not above \<open>sc\<close>, and \<open>research\<close> only when \<open>sr\<close> is
  strictly above both. The confidence is the greatest score over the sum of the scores, the
  sum taken as 1 when it is 0.
\<close>

theorem analyze_query_first_maximum:
  assumes "intent_scores (lower q) = [(''weather'', sw), (''chart'', sc), (''research'', sr)]"
  shows "analyze_query q =
           Inr \<lparr>intent = (if sc \<le> sw \<and> sr \<le> sw then ''weather''
                          else if sr \<le> sc then ''chart'' else ''research''),
                confidence = real (max sw (max sc sr)) / real (max (sw + sc + sr) 1),
                entities = extract_entities (lower q),
                keywords_found = extract_keywords (lower q)\<rparr>"
  using assms by (auto simp: analyze_query_def Let_def max_def)

theorem analyze_query_first_maximum_witness:
  "analyze_query ''xyz abc''
     = Inr \<lparr>intent = ''weather'', confidence = 0, entities = [], keywords_found = []\<rparr>
   \<and> map_sum id intent (analyze_query (''Gr'' @ a_acute # ''fico do PIB'')) = Inr ''chart''"
  using analyze_query_first_maximum [OF scores_xyz]
        analyze_query_first_maximum [OF scores_chart_pib]
  by (simp add: entities_xyz keywords_xyz)

text \<open>
  The query \<open>xyz abc\<close> matches no pattern, all three scores are 0, and the intent returned
  is \<open>weather\<close>, not \<open>research\<close>.
\<close>

theorem analyze_query_tie_counterexample:
  "intent_scores (lower ''xyz abc'') = [(''weather'', 0), (''chart'', 0), (''research'', 0)]
   \<and> map_sum id intent (analyze_query ''xyz abc'') = Inr ''weather''
   \<and> map_sum id intent (analyze_query ''xyz abc'') \<noteq> Inr ''research''"
  by (simp add: scores_xyz analyze_query_def Let_def)

subsection \<open>The dispatcher\<close>

lemma cache_get_fresh:
  assumes "cache cm key = Some (v, t0)" and "now < t0 + timedelta_minutes (ttl_minutes cm)"
  shows "cache_get cm key now = (Some v, cm)"
  using assms by (simp add: cache_get_def)

lemma handle_raised_Inl: "handle_raised q e = Inl e' \<Longrightarrow> e' = e \<and> \<not> is_Exception e"
  by (cases e) (auto split: if_splits)

lemma execute_result:
  "fst (execute env route q s) =
     (case snd (snd (select_executor env route)) q of
        Returned result \<Rightarrow> Inr result
      | Raised e \<Rightarrow> handle_raised q e)"
  by (simp add: execute_def Let_def split: prod.splits invoke_result.splits)

lemma execute_Inl: "fst (execute env route q s) = Inl e \<Longrightarrow> \<not> is_Exception e"
  by (auto simp: execute_result split: invoke_result.splits dest: handle_raised_Inl)

lemma execute_eq:
  "execute env route q s =
     (fst (execute env route q s0),
      log_agent_activity (fst (select_executor env route))
        (fst (snd (select_executor env route))) s)"
  by (simp add: execute_def Let_def split: prod.splits invoke_result.splits)

lemma try_block_hit:
  assumes "fault_cache_check f = None"
    and "cache_get (cache_manager s) (generate_cache_key (md5_hexdigest env) ''system'' q)
           (now_get clk) = (Some r, cm)"
  shows "try_block env f clk q s
           = (Inr r, log_agent_activity ''system'' ''cache_hit'' (s\<lparr>cache_manager := cm\<rparr>))"
  using assms by (simp add: try_block_def Let_def)

lemma try_block_miss_eq:
  assumes "cache_get (cache_manager s) (generate_cache_key (md5_hexdigest env) ''system'' q)
             (now_get clk) = (None, cm)"
    and "analyze_query q = Inr an"
  shows "try_block env no_faults clk q s =
           (case fst (execute env (route_query q) q s) of
              Inl e \<Rightarrow>
                (Inl e,
                 log_agent_activity (fst (select_executor env (route_query q)))
                   (fst (snd (select_executor env (route_query q))))
                   (log_agent_activity ''system'' ''query_analyzed''
                      (s\<lparr>cache_manager := cm\<rparr>)))
            | Inr result \<Rightarrow>
                (case finalize clk (generate_cache_key (md5_hexdigest env) ''system'' q) q
                        (route_query q) an result
                        (log_agent_activity (fst (select_executor env (route_query q)))
                           (fst (snd (select_executor env (route_query q))))
                           (log_agent_activity ''system'' ''query_analyzed''
                              (s\<lparr>cache_manager := cm\<rparr>)))
                 of (r, s4) \<Rightarrow> (Inr r, s4)))"
proof -
  have ex: "execute env (route_query q) q
              (log_agent_activity ''system'' ''query_analyzed'' (s\<lparr>cache_manager := cm\<rparr>))
            = (fst (execute env (route_query q) q s),
               log_agent_activity (fst (select_executor env (route_query q)))
                 (fst (snd (select_executor env (route_query q))))
                 (log_agent_activity ''system'' ''query_analyzed'' (s\<lparr>cache_manager := cm\<rparr>)))"
    by (rule execute_eq)
  show ?thesis
    using assms by (simp add: try_block_def no_faults_def Let_def ex split: sum.splits)
qed

lemma process_query_no_faults:
  "process_query env no_faults clk q s =
     (case try_block env no_faults clk q s of
        (Inr r, s') \<Rightarrow> (Inr r, s')
      | (Inl e, s') \<Rightarrow>
          if is_Exception e
          then (Inr (Failure (str_of e) q (time_end clk - time_start clk) (now_stamp clk)),
                log_agent_activity ''system'' ''error'' s')
          else (Inl e, s'))"
  by (simp add: process_query_def no_faults_def split: prod.splits sum.splits)

lemma process_query_miss_eq:
  assumes "cache_get (cache_manager s) (generate_cache_key (md5_hexdigest env) ''system'' q)
             (now_get clk) = (None, cm)"
    and "analyze_query q = Inr an"
  shows "process_query env no_faults clk q s =
           (case fst (execute env (route_query q) q s) of
              Inl e \<Rightarrow>
                (Inl e,
                 log_agent_activity (fst (select_executor env (route_query q)))
                   (fst (snd (select_executor env (route_query q))))
                   (log_agent_activity ''system'' ''query_analyzed''
                      (s\<lparr>cache_manager := cm\<rparr>)))
            | Inr result \<Rightarrow>
                (case finalize clk (generate_cache_key (md5_hexdigest env) ''system'' q) q
                        (route_query q) an result
                        (log_agent_activity (fst (select_executor env (route_query q)))
                           (fst (snd (select_executor env (route_query q))))
                           (log_agent_activity ''system'' ''query_analyzed''
                              (s\<lparr>cache_manager := cm\<rparr>)))
                 of (r, s4) \<Rightarrow> (Inr r, s4)))"
proof (cases "fst (execute env (route_query q) q s)")
  case (Inl e)
  then have "\<not> is_Exception e"
    by (rule execute_Inl)
  then show ?thesis
    by (simp add: process_query_no_faults try_block_miss_eq [OF assms] Inl)
next
  case (Inr result)
  then show ?thesis
    by (simp add: process_query_no_faults try_block_miss_eq [OF assms] split: prod.splits)
qed

lemma process_query_miss:
  assumes "fst (cache_get (cache_manager s) (generate_cache_key (md5_hexdigest env) ''system'' q)
             (now_get clk)) = None"
    and "analyze_query q = Inr an"
  shows "fst (process_query env no_faults clk q s) =
           (case fst (execute env (route_query q) q s) of
              Inl e \<Rightarrow> Inl e
            | Inr result \<Rightarrow>
                Inr (Success (case result of Some out \<Rightarrow> out | None \<Rightarrow> default_content)
                       (route_query q) q an (time_end clk - time_start clk) (now_stamp clk)))"
proof -
  obtain cm where cm: "cache_get (cache_manager s)
      (generate_cache_key (md5_hexdigest env) ''system'' q) (now_get clk) = (None, cm)"
    using assms(1) by (cases "cache_get (cache_manager s)
      (generate_cache_key (md5_hexdigest env) ''system'' q) (now_get clk)") simp
  show ?thesis
    by (simp add: process_query_miss_eq [OF cm assms(2)] finalize_def Let_def
          split: sum.splits)
qed

lemma process_query_miss_log:
  assumes "fst (cache_get (cache_manager s) (generate_cache_key (md5_hexdigest env) ''system'' q)
             (now_get clk)) = None"
    and "analyze_query q = Inr an"
  shows "activity_log (snd (process_query env no_faults clk q s)) =
           activity_log s @ [(''system'', ''query_analyzed''),
             (fst (select_executor env (route_query q)),
              fst (snd (select_executor env (route_query q))))]"
proof -
  obtain cm where cm: "cache_get (cache_manager s)
      (generate_cache_key (md5_hexdigest env) ''system'' q) (now_get clk) = (None, cm)"
    using assms(1) by (cases "cache_get (cache_manager s)
      (generate_cache_key (md5_hexdigest env) ''system'' q) (now_get clk)") simp
  show ?thesis
    by (simp add: process_query_miss_eq [OF cm assms(2)] finalize_def Let_def
          log_agent_activity_def split: sum.splits)
qed

lemma first_call_caches:
  assumes "process_query env f clk q s = (Inr r, s')"
    and "success r"
    and "processing_time r < AGENT_TIMEOUT"
    and "fst (cache_get (cache_manager s) (generate_cache_key (md5_hexdigest env) ''system'' q)
             (now_get clk)) = None"
  shows "cache (cache_manager s') (generate_cache_key (md5_hexdigest env) ''system'' q)
           = Some (r, now_set clk)"
  using assms
  by (auto simp: process_query_def try_block_def finalize_def Let_def cache_set_def
           split: option.splits prod.splits sum.splits if_splits)

lemma miss_init:
  "fst (cache_get (cache_manager system_init) k t) = None"
  by (simp add: system_init_def CacheManager_init_def cache_get_def)

lemma analysis_sol:
  "analyze_query ''sol''
     = Inr \<lparr>intent = ''weather'', confidence = 1, entities = [], keywords_found = []\<rparr>"
  by code_simp

lemma route_sol: "route_query ''sol'' = ''research''"
  by code_simp

lemma analysis_pib:
  "analyze_query ''pib''
     = Inr \<lparr>intent = ''research'', confidence = 1, entities = [], keywords_found = [''pib'']\<rparr>"
  by code_simp

lemma route_pib: "route_query ''pib'' = ''research''"
  by code_simp

text \<open>
  C2, as the code has it. On a call that reaches the agent (no cached result, no exception
  outside the agent call) the agent is chosen by \<open>_route_query\<close> from the text of the query
  alone: the executor called is the one \<open>select_executor\<close> gives for \<open>_route_query(query)\<close>,
  and the call returns the outcome whose \<open>agent_used\<close> is that route and whose content is
  what that executor produced, or lets through the exception that no \<open>except Exception\<close>
  catches. The classification of \<open>analyze_query\<close> is copied into the outcome and takes no
  part in the choice, its intent included.
\<close>

theorem handler_chosen_by_route_query:
  assumes "fst (cache_get (cache_manager s) (generate_cache_key (md5_hexdigest env) ''system'' q)
             (now_get clk)) = None"
    and "analyze_query q = Inr an"
  shows "fst (process_query env no_faults clk q s) =
           (let outcome_with = (\<lambda>c. Inr (Success c (route_query q) q an
                                           (time_end clk - time_start clk) (now_stamp clk)))
            in case snd (snd (select_executor env (route_query q))) q of
                 Returned result \<Rightarrow>
                   outcome_with (case result of Some out \<Rightarrow> out | None \<Rightarrow> default_content)
               | Raised (TimeoutException m) \<Rightarrow> outcome_with (timeout_output q)
               | Raised (Exception m) \<Rightarrow> outcome_with (error_output q m)
               | Raised (KeyboardInterrupt m) \<Rightarrow> Inl (KeyboardInterrupt m)
               | Raised (SystemExit m) \<Rightarrow> Inl (SystemExit m))
       \<and> (\<forall>r. fst (process_query env no_faults clk q s) = Inr r \<longrightarrow>
              agent_used r = route_query q \<and> analysis r = an)
       \<and> activity_log (snd (process_query env no_faults clk q s)) =
           activity_log s @ [(''system'', ''query_analyzed''),
             (fst (select_executor env (route_query q)),
              fst (snd (select_executor env (route_query q))))]"
proof -
  have fst_eq: "fst (process_query env no_faults clk q s) =
           (let outcome_with = (\<lambda>c. Inr (Success c (route_query q) q an
                                           (time_end clk - time_start clk) (now_stamp clk)))
            in case snd (snd (select_executor env (route_query q))) q of
                 Returned result \<Rightarrow>
                   outcome_with (case result of Some out \<Rightarrow> out | None \<Rightarrow> default_content)
               | Raised (TimeoutException m) \<Rightarrow> outcome_with (timeout_output q)
               | Raised (Exception m) \<Rightarrow> outcome_with (error_output q m)
               | Raised (KeyboardInterrupt m) \<Rightarrow> Inl (KeyboardInterrupt m)
               | Raised (SystemExit m) \<Rightarrow> Inl (SystemExit m))"
    by (simp add: process_query_miss [OF assms] execute_result Let_def
          split: invoke_result.splits exn.splits)
  have "\<forall>r. fst (process_query env no_faults clk q s) = Inr r \<longrightarrow>
              agent_used r = route_query q \<and> analysis r = an"
    by (auto simp: process_query_miss [OF assms] split: sum.splits)
  then show ?thesis
    using fst_eq process_query_miss_log [OF assms] by blast
qed

theorem handler_chosen_by_route_query_witness:
  "fst (process_query example_env no_faults example_clock ''sol'' system_init)
     = Inr (Success ''research answer'' ''research'' ''sol''
              \<lparr>intent = ''weather'', confidence = 1, entities = [], keywords_found = []\<rparr>
              1 1000000)"
  using handler_chosen_by_route_query
          [where env = example_env and clk = example_clock and q = "''sol''"
             and s = system_init, OF miss_init analysis_sol]
  by (simp add: route_sol select_executor_def example_env_def example_clock_def Let_def)

text \<open>
  The queries \<open>sol\<close> and \<open>clima\<close> have the same classification, intent \<open>weather\<close> with
  confidence 1, and go to different agents: \<open>sol\<close> to the research agent, \<open>clima\<close> to the
  weather agent.
\<close>

theorem same_intent_different_handler_counterexample:
  "map_sum id analysis (fst (process_query example_env no_faults example_clock ''sol'' system_init))
     = map_sum id analysis
         (fst (process_query example_env no_faults example_clock ''clima'' system_init))
   \<and> map_sum id (intent \<circ> analysis)
         (fst (process_query example_env no_faults example_clock ''sol'' system_init))
     = Inr ''weather''
   \<and> map_sum id agent_used
         (fst (process_query example_env no_faults example_clock ''sol'' system_init))
     = Inr ''research''
   \<and> map_sum id agent_used
         (fst (process_query example_env no_faults example_clock ''clima'' system_init))
     = Inr ''weather''
   \<and> map_sum id content
         (fst (process_query example_env no_faults example_clock ''sol'' system_init))
     \<noteq> map_sum id content
         (fst (process_query example_env no_faults example_clock ''clima'' system_init))"
  by code_simp

text \<open>
  C3, as the code has it. When the executor of the route raises an exception of class
  \<open>Exception\<close> other than the timeout, on a call with no cached result and no exception
  outside the agent call, \<open>process_query\<close> returns an outcome with \<open>success\<close> true. Its
  content is the fallback sentence, which quotes the query and ends with the first 100
  characters of the error text followed by three dots, so it is at most 165 characters
  longer than the query.
\<close>

theorem handler_exception_becomes_fallback:
  assumes "fst (cache_get (cache_manager s) (generate_cache_key (md5_hexdigest env) ''system'' q)
             (now_get clk)) = None"
    and "analyze_query q = Inr an"
    and "snd (snd (select_executor env (route_query q))) q = Raised (Exception m)"
  shows "\<exists>r. fst (process_query env no_faults clk q s) = Inr r
       \<and> r = Success (error_output q m) (route_query q) q an
                   (time_end clk - time_start clk) (now_stamp clk)
       \<and> success r
       \<and> (\<exists>pre. content r = pre @ take 100 m @ ''...'')
       \<and> length (content r) \<le> length q + 165"
proof -
  have fst_eq: "fst (process_query env no_faults clk q s) =
      Inr (Success (error_output q m) (route_query q) q an
             (time_end clk - time_start clk) (now_stamp clk))"
    by (simp add: process_query_miss [OF assms(1,2)] execute_result assms(3))
  have "\<exists>pre. error_output q m = pre @ take 100 m @ ''...''"
    by (rule exI [of _ "''N'' @ a_tilde # ''o foi poss'' @ i_acute
          # ''vel processar completamente a consulta '' @ CHR 0x27 # q @ CHR 0x27 # ''. Erro: ''"])
       (simp add: error_output_def)
  moreover have "length (error_output q m) \<le> length q + 165"
    by (simp add: error_output_def)
  ultimately show ?thesis
    by (simp add: fst_eq)
qed

theorem handler_exception_becomes_fallback_witness:
  "fst (process_query failing_env no_faults example_clock ''pib'' system_init) =
     Inr (Success (error_output ''pib'' ''boom'') ''research'' ''pib''
            \<lparr>intent = ''research'', confidence = 1, entities = [], keywords_found = [''pib'']\<rparr>
            1 1000000)"
  using handler_exception_becomes_fallback
          [where env = failing_env and clk = example_clock and q = "''pib''"
             and s = system_init and m = "''boom''", OF miss_init analysis_pib]
  by (simp add: route_pib select_executor_def failing_env_def example_env_def example_clock_def)

text \<open>
  The research executor raises \<open>Exception("boom")\<close> on the query \<open>pib\<close>, and the outcome
  has \<open>success\<close> true, not false.
\<close>

theorem handler_exception_success_counterexample:
  "map_sum id success (fst (process_query failing_env no_faults example_clock ''pib'' system_init))
     = Inr True
   \<and> map_sum id content
        (fst (process_query failing_env no_faults example_clock ''pib'' system_init))
     = Inr (error_output ''pib'' ''boom'')"
  by code_simp

text \<open>
  C4, on the failing input. The research executor raises \<open>Exception("boom")\<close> on the query
  \<open>pib\<close> one second after the call began. The fallback outcome of that failure is stored in
  the cache, and a call of the same query one minute later, with executors that work,
  returns the stored failure text.
\<close>

theorem handler_failure_is_cached:
  "cache (cache_manager (snd (process_query failing_env no_faults example_clock ''pib'' system_init)))
         (generate_cache_key (md5_hexdigest failing_env) ''system'' ''pib'')
     = Some (Success (error_output ''pib'' ''boom'') ''research'' ''pib''
               \<lparr>intent = ''research'', confidence = 1, entities = [],
                  keywords_found = [''pib'']\<rparr> 1 1000000,
             1000000)
   \<and> map_sum id content
        (fst (process_query example_env no_faults later_clock ''pib''
                (snd (process_query failing_env no_faults example_clock ''pib'' system_init))))
     = Inr (error_output ''pib'' ''boom'')"
  by code_simp

text \<open>
  C7. Let a call of \<open>process_query\<close> on \<open>q1\<close> find nothing in the cache and return a
  successful outcome \<open>r1\<close> whose processing time is below \<open>AGENT_TIMEOUT\<close>. A following
  call on any \<open>q2\<close> with the same normalized text, made before the entry expires and with
  no exception before or during the cache check, returns \<open>r1\<close> itself, so the same content
  and agent, whatever the executors would answer and whatever would happen in the later
  stages; the cache is unchanged and the only activity logged is \<open>cache_hit\<close>: neither
  \<open>analyze_query\<close> nor an executor runs.
\<close>

theorem cache_idempotence:
  assumes "process_query env1 f1 clk1 q1 s0 = (Inr r1, s1)"
    and "success r1"
    and "processing_time r1 < AGENT_TIMEOUT"
    and "fst (cache_get (cache_manager s0) (generate_cache_key (md5_hexdigest env1) ''system'' q1)
             (now_get clk1)) = None"
    and "normalized_query q2 = normalized_query q1"
    and "md5_hexdigest env2 = md5_hexdigest env1"
    and "now_get clk2 < now_set clk1 + timedelta_minutes (ttl_minutes (cache_manager s1))"
    and "fault_prologue f2 = None"
    and "fault_cache_check f2 = None"
  shows "process_query env2 f2 clk2 q2 s1
           = (Inr r1, log_agent_activity ''system'' ''cache_hit'' s1)
       \<and> map_sum id content (fst (process_query env2 f2 clk2 q2 s1)) = Inr (content r1)
       \<and> map_sum id agent_used (fst (process_query env2 f2 clk2 q2 s1)) = Inr (agent_used r1)
       \<and> cache_manager (snd (process_query env2 f2 clk2 q2 s1)) = cache_manager s1
       \<and> activity_log (snd (process_query env2 f2 clk2 q2 s1))
           = activity_log s1 @ [(''system'', ''cache_hit'')]"
proof -
  have key: "generate_cache_key (md5_hexdigest env2) ''system'' q2
           = generate_cache_key (md5_hexdigest env1) ''system'' q1"
    using assms(5,6) by (simp add: generate_cache_key_def)
  have stored: "cache (cache_manager s1) (generate_cache_key (md5_hexdigest env1) ''system'' q1)
           = Some (r1, now_set clk1)"
    by (rule first_call_caches [OF assms(1-4)])
  have hit: "cache_get (cache_manager s1) (generate_cache_key (md5_hexdigest env2) ''system'' q2)
           (now_get clk2) = (Some r1, cache_manager s1)"
    unfolding key by (rule cache_get_fresh [OF stored assms(7)])
  have "try_block env2 f2 clk2 q2 s1
          = (Inr r1, log_agent_activity ''system'' ''cache_hit''
                       (s1\<lparr>cache_manager := cache_manager s1\<rparr>))"
    by (rule try_block_hit [OF assms(9) hit])
  then have "process_query env2 f2 clk2 q2 s1
               = (Inr r1, log_agent_activity ''system'' ''cache_hit'' s1)"
    using assms(8) by (simp add: process_query_def)
  then show ?thesis
    by (simp add: log_agent_activity_def)
qed

lemma first_call_returns:
  "process_query example_env no_faults example_clock ''pib'' system_init
     = (Inr (Success ''research answer'' ''research'' ''pib''
               \<lparr>intent = ''research'', confidence = 1, entities = [],
                  keywords_found = [''pib'']\<rparr> 1 1000000),
        snd (process_query example_env no_faults example_clock ''pib'' system_init))"
proof -
  have "fst (process_query example_env no_faults example_clock ''pib'' system_init)
     = Inr (Success ''research answer'' ''research'' ''pib''
               \<lparr>intent = ''research'', confidence = 1, entities = [],
                  keywords_found = [''pib'']\<rparr> 1 1000000)"
    by code_simp
  then show ?thesis
    by (metis prod.collapse)
qed

lemma first_call_fast: "(1::real) < AGENT_TIMEOUT"
  by (simp add: AGENT_TIMEOUT_def)

lemma same_normalized_pib: "normalized_query ''  PIB  '' = normalized_query ''pib''"
  by code_simp

lemma same_digest: "md5_hexdigest failing_env = md5_hexdigest example_env"
  by (simp add: failing_env_def)

lemma second_call_soon:
  "now_get later_clock
     < now_set example_clock
       + timedelta_minutes (ttl_minutes (cache_manager
           (snd (process_query example_env no_faults example_clock ''pib'' system_init))))"
  by code_simp

lemma no_fault_at_prologue: "fault_prologue no_faults = None"
  by (simp add: no_faults_def)

lemma no_fault_at_cache_check: "fault_cache_check no_faults = None"
  by (simp add: no_faults_def)

theorem cache_idempotence_witness:
  "fst (process_query failing_env no_faults later_clock ''  PIB  ''
          (snd (process_query example_env no_faults example_clock ''pib'' system_init)))
     = Inr (Success ''research answer'' ''research'' ''pib''
              \<lparr>intent = ''research'', confidence = 1, entities = [],
                 keywords_found = [''pib'']\<rparr> 1 1000000)
   \<and> activity_log (snd (process_query failing_env no_faults later_clock ''  PIB  ''
                   (snd (process_query example_env no_faults example_clock ''pib'' system_init))))
     = activity_log (snd (process_query example_env no_faults example_clock ''pib'' system_init))
         @ [(''system'', ''cache_hit'')]"
  using cache_idempotence [OF first_call_returns _ _ miss_init same_normalized_pib same_digest
          second_call_soon no_fault_at_prologue no_fault_at_cache_check]
        first_call_fast
  by (simp add: log_agent_activity_def)

text \<open>
  C9, as the code has it. Let no exception be raised before the \<open>try\<close>, and let the
  exception \<open>e\<close> be raised during the cache check, or after a cache miss during the
  analysis, during the routing, or while the result is put together once the agent call
  has ended and left a result. When \<open>e\<close> is an instance of \<open>Exception\<close>, and the body of
  the \<open>except\<close> clause raises nothing itself, \<open>process_query\<close> returns the failure outcome
  that carries the text of \<open>e\<close>, the query and the elapsed time, whose \<open>success\<close> is false.
  When \<open>e\<close> is not an instance of \<open>Exception\<close> (\<open>KeyboardInterrupt\<close>, \<open>SystemExit\<close>), no
  outcome is returned: \<open>e\<close> leaves \<open>process_query\<close> and reaches the caller.
\<close>

theorem process_query_catches_Exception_only:
  assumes "fault_prologue f = None"
    and "fault_cache_check f = Some e
         \<or> fault_cache_check f = None
           \<and> fst (cache_get (cache_manager s)
                    (generate_cache_key (md5_hexdigest env) ''system'' q) (now_get clk)) = None
           \<and> (fault_analyze f = Some e
               \<or> fault_analyze f = None \<and> fault_route f = Some e
               \<or> fault_analyze f = None \<and> fault_route f = None
                 \<and> (\<exists>result. fst (execute env (route_query q) q s) = Inr result)
                 \<and> fault_finalize f = Some e)"
  shows "(is_Exception e \<and> fault_except_body f = None \<longrightarrow>
            fst (process_query env f clk q s)
              = Inr (Failure (str_of e) q (time_end clk - time_start clk) (now_stamp clk))
            \<and> \<not> success (Failure (str_of e) q (time_end clk - time_start clk) (now_stamp clk)))
       \<and> (\<not> is_Exception e \<longrightarrow> fst (process_query env f clk q s) = Inl e)"
proof -
  obtain an where an: "analyze_query q = Inr an"
    using analyze_query_returns by blast
  have ex: "\<And>s2 x y. execute env (route_query q) q s2 = (x, y) \<Longrightarrow>
                 fst (execute env (route_query q) q s) = x"
    by (metis execute_eq fst_conv)
  have "fst (try_block env f clk q s) = Inl e"
    using assms(2)
    by (auto simp: try_block_def Let_def an split: prod.splits option.splits sum.splits
             dest!: ex)
  then show ?thesis
    using assms(1)
    by (auto simp: process_query_def split: prod.splits sum.splits option.splits)
qed

lemma no_faults_but_analyze:
  "fault_prologue (no_faults\<lparr>fault_analyze := Some e\<rparr>) = None
   \<and> fault_cache_check (no_faults\<lparr>fault_analyze := Some e\<rparr>) = None
   \<and> fault_analyze (no_faults\<lparr>fault_analyze := Some e\<rparr>) = Some e
   \<and> fault_except_body (no_faults\<lparr>fault_analyze := Some e\<rparr>) = None"
  by (simp add: no_faults_def)

theorem process_query_catches_Exception_only_witness:
  "fst (process_query example_env (no_faults\<lparr>fault_analyze := Some timeout_handler\<rparr>)
         example_clock ''pib'' system_init)
     = Inr (Failure ''Agent execution timed out'' ''pib'' 1 1000000)
   \<and> fst (process_query example_env (no_faults\<lparr>fault_analyze := Some (SystemExit ''1'')\<rparr>)
         example_clock ''pib'' system_init)
     = Inl (SystemExit ''1'')"
  using process_query_catches_Exception_only
          [where f = "no_faults\<lparr>fault_analyze := Some timeout_handler\<rparr>"
             and e = timeout_handler and s = system_init and env = example_env
             and q = "''pib''" and clk = example_clock]
        process_query_catches_Exception_only
          [where f = "no_faults\<lparr>fault_analyze := Some (SystemExit ''1'')\<rparr>"
             and e = "SystemExit ''1''" and s = system_init and env = example_env
             and q = "''pib''" and clk = example_clock]
        no_faults_but_analyze [of timeout_handler] no_faults_but_analyze [of "SystemExit ''1''"]
        miss_init
  by (simp add: timeout_handler_def example_clock_def)

text \<open>
  The user interrupts the call while \<open>analyze_query\<close> runs: the \<open>KeyboardInterrupt\<close> is
  raised during the classification and leaves \<open>process_query\<close>; no outcome is returned.
\<close>

theorem keyboard_interrupt_escapes_counterexample:
  "fst (process_query example_env (no_faults\<lparr>fault_analyze := Some (KeyboardInterrupt [])\<rparr>)
         example_clock ''pib'' system_init)
     = Inl (KeyboardInterrupt [])"
  by code_simp

subsection \<open>Normalization of the cache key\<close>

lemma rstrip_Nil: "rstrip [] = []"
  by (simp add: rstrip_def)

lemma rstrip_Cons:
  "rstrip (a # xs) = (if (\<forall>x\<in>set xs. isspace x) \<and> isspace a then [] else a # rstrip xs)"
  by (simp add: rstrip_def dropWhile_append)

lemma rstrip_all_space: "\<forall>x\<in>set xs. isspace x \<Longrightarrow> rstrip xs = []"
  by (simp add: rstrip_def)

lemma rstrip_lstrip_commute: "dropWhile isspace (rstrip xs) = rstrip (dropWhile isspace xs)"
proof (induction xs)
  case Nil
  then show ?case by (simp add: rstrip_Nil)
next
  case (Cons a xs)
  show ?case
  proof (cases "isspace a")
    case True
    show ?thesis
    proof (cases "\<forall>x\<in>set xs. isspace x")
      case all: True
      then have dw: "dropWhile isspace xs = []"
        by simp
      show ?thesis
        using True all by (simp add: rstrip_Cons rstrip_Nil dw)
    next
      case False
      then show ?thesis
        using True Cons by (auto simp: rstrip_Cons)
    qed
  next
    case False
    then show ?thesis
      by (simp add: rstrip_Cons)
  qed
qed

lemma rstrip_word_append:
  "\<forall>x\<in>set w. \<not> isspace x \<Longrightarrow> rstrip (w @ r) = w @ rstrip r"
  by (induction w) (simp_all add: rstrip_Cons)

lemma sub_spaces_word_append:
  "\<forall>x\<in>set w. \<not> isspace x \<Longrightarrow> sub_spaces (w @ r) = w @ sub_spaces r"
  by (induction w) simp_all

lemma split_ws_Nil_iff: "split_ws s = [] \<longleftrightarrow> (\<forall>x\<in>set s. isspace x)"
proof (cases "dropWhile isspace s")
  case Nil
  then have "\<forall>x\<in>set s. isspace x"
    using dropWhile_eq_Nil_conv [of isspace s] by blast
  moreover have "split_ws s = []"
    by (subst split_ws.simps) (simp add: Nil)
  ultimately show ?thesis
    by simp
next
  case (Cons c cs)
  then have "\<not> (\<forall>x\<in>set s. isspace x)"
    using dropWhile_eq_Nil_conv [of isspace s] by auto
  moreover have "split_ws s \<noteq> []"
    by (subst split_ws.simps) (simp add: Cons)
  ultimately show ?thesis
    by simp
qed

lemma sub_spaces_strip: "sub_spaces (strip s) = join_space (split_ws s)"
proof (induction s rule: split_ws.induct)
  case (1 s)
  show ?case
  proof (cases "dropWhile isspace s")
    case Nil
    show ?thesis
      by (subst split_ws.simps) (simp add: Nil strip_def lstrip_def rstrip_Nil)
  next
    case (Cons c cs)
    define w where "w = c # takeWhile (\<lambda>x. \<not> isspace x) cs"
    define r where "r = dropWhile (\<lambda>x. \<not> isspace x) cs"
    have c: "\<not> isspace c"
      using Cons by (metis dropWhile_eq_Cons_conv)
    have w: "\<forall>x\<in>set w. \<not> isspace x"
      using c by (auto simp: w_def dest: set_takeWhileD)
    have decomp: "dropWhile isspace s = w @ r"
      by (simp add: Cons w_def r_def)
    have split: "split_ws s = w # split_ws r"
      by (subst split_ws.simps) (simp add: Cons w_def r_def)
    have IH: "sub_spaces (strip r) = join_space (split_ws r)"
      using "1.IH" [OF Cons] by (simp add: r_def)
    have strip_s: "strip s = w @ rstrip r"
      by (simp add: strip_def lstrip_def decomp rstrip_word_append [OF w])
    show ?thesis
    proof (cases "\<forall>x\<in>set r. isspace x")
      case True
      then have "split_ws r = []"
        by (simp only: split_ws_Nil_iff)
      moreover have "rstrip r = []"
        using True by (rule rstrip_all_space)
      ultimately show ?thesis
        using sub_spaces_word_append [OF w, of "[]"] by (simp add: strip_s split)
    next
      case False
      then obtain d ds where r_eq: "r = d # ds"
        by (cases r) auto
      have d: "isspace d"
        using r_eq by (metis (mono_tags, lifting) dropWhile_eq_Cons_conv r_def)
      have ds: "\<not> (\<forall>x\<in>set ds. isspace x)"
        using False d by (simp add: r_eq)
      have "rstrip r = d # rstrip ds"
        using ds by (simp add: r_eq rstrip_Cons)
      moreover have "dropWhile isspace (rstrip ds) = strip r"
        using d by (simp add: rstrip_lstrip_commute strip_def lstrip_def r_eq)
      ultimately have "sub_spaces (rstrip r) = CHR '' '' # sub_spaces (strip r)"
        using d by simp
      moreover obtain v vs where "split_ws r = v # vs"
        using False by (cases "split_ws r") (auto simp: split_ws_Nil_iff)
      ultimately show ?thesis
        using sub_spaces_word_append [OF w, of "rstrip r"] IH by (simp add: strip_s split)
    qed
  qed
qed

lemma normalized_query_words: "normalized_query q = join_space (split_ws (lower q))"
  by (simp add: normalized_query_def sub_spaces_strip)

text \<open>
  C8. Two queries whose lower-cased forms have the same words in the same order, so
  queries that differ only in letter casing or in runs of whitespace at the ends or
  between words, get the same cache key, for every scope and every digest function.
\<close>

theorem generate_cache_key_normalizes:
  "same_words q1 q2 \<Longrightarrow>
     generate_cache_key md5_hex scope q1 = generate_cache_key md5_hex scope q2"
  by (simp add: same_words_def generate_cache_key_def normalized_query_words)

lemma same_words_pib:
  "same_words (''  PIB   S'' @ a_tilde # ''o Paulo '') (''pib s'' @ a_tilde # ''o paulo'')"
  by code_simp

theorem generate_cache_key_normalizes_witness:
  "generate_cache_key (\<lambda>s. s) ''system'' (''  PIB   S'' @ a_tilde # ''o Paulo '')
     = generate_cache_key (\<lambda>s. s) ''system'' (''pib s'' @ a_tilde # ''o paulo'')"
  using generate_cache_key_normalizes [OF same_words_pib] .

end
